theory Spec2Isabelle
  imports Main
begin

section \<open>Values, strings and DOM nodes\<close>

text \<open>
  The recorder is JavaScript running in a page. Strings are modelled as \<open>string\<close>; one
  \<open>char\<close> stands for one UTF-16 code unit below 256. A value read from a property that
  may be absent is a \<open>jsval\<close>: \<open>undefined\<close>, \<open>null\<close> or a string.
\<close>

datatype jsval = Undefined | Null | Str string

datatype js_error = TypeError | ReferenceError | ChannelError

text \<open>
  An element node carries what the recorder reads from it. \<open>ref\<close> is the object
  identity (JavaScript compares targets with \<open>===\<close>); \<open>attributes\<close> backs
  \<open>getAttribute\<close> and \<open>hasAttribute\<close>; \<open>el_value\<close> and \<open>el_type\<close> are the
  \<open>value\<close> and \<open>type\<close> properties of the object, which the platform sets and which
  need not agree with the attributes of these names; \<open>onclick\<close> tells whether the
  \<open>onclick\<close> property is non-null; \<open>siblingIndex\<close> is
  \<open>Array.from(element.parentNode?.children || []).indexOf(element)\<close>, which is
  \<open>-1\<close> for a detached element; \<open>parentElement\<close> is the chain that
  \<open>closest\<close> walks.
\<close>

datatype element = Element
  (ref: nat)
  (tagName: string)
  (attributes: "(string \<times> string) list")
  (className: string)
  (textContent: string)
  (el_value: jsval)
  (el_type: jsval)
  (onclick: bool)
  (siblingIndex: int)
  (parentElement: "element option")

text \<open>
  What an event can carry as its target: nothing (\<open>null\<close> or \<open>undefined\<close>), a
  truthy value that is not an object, a node whose \<open>nodeType\<close> is not
  \<open>ELEMENT_NODE\<close> (a text node is 3, the document is 9), or an element.
\<close>

datatype target = Missing | Primitive | NonElement nat | Elem element

definition getAttribute :: "element \<Rightarrow> string \<Rightarrow> string option" where
  "getAttribute e a = map_of (attributes e) a"

definition hasAttribute :: "element \<Rightarrow> string \<Rightarrow> bool" where
  "hasAttribute e a = (getAttribute e a \<noteq> None)"

text \<open>\<open>String.prototype.toLowerCase\<close> on code units below 256: the ASCII capitals and
  the Latin-1 capitals (192 to 222 except the multiplication sign 215) move up by 32.\<close>

definition lower_char :: "char \<Rightarrow> char" where
  "lower_char c =
     (let n = (of_char c :: int)
      in if (65 \<le> n \<and> n \<le> 90) \<or> (192 \<le> n \<and> n \<le> 222 \<and> n \<noteq> 215)
         then char_of (n + 32) else c)"

definition toLowerCase :: "string \<Rightarrow> string" where
  "toLowerCase s = map lower_char s"

section \<open>Interactivity classifier\<close>

definition interactiveTags :: "string list" where
  "interactiveTags = [''button'', ''input'', ''select'', ''textarea'', ''a'']"

definition interactiveRoles :: "string list" where
  "interactiveRoles = [''button'', ''link'', ''checkbox'', ''radio'', ''textbox'',
     ''combobox'', ''listbox'', ''menuitem'']"

text \<open>
  First recorder variant. The guard rejects every target that is not an element; the body
  sets the flag \<open>result.isInteractive\<close> in four successive tests.
\<close>

fun isInteractiveElement :: "target \<Rightarrow> bool" where
  "isInteractiveElement (Elem element) =
     (let tag = (if tagName element \<noteq> [] then toLowerCase (tagName element) else []);
          role = getAttribute element ''role'';
          hasOnClick = onclick element;
          tabIndex = getAttribute element ''tabindex'';
          r0 = False;
          r1 = (if tag \<in> set interactiveTags then True else r0);
          r2 = (if (case role of None \<Rightarrow> False
                    | Some r \<Rightarrow> r \<noteq> [] \<and> r \<in> set interactiveRoles) then True else r1);
          r3 = (if hasOnClick then True else r2);
          r4 = (if tabIndex = Some ''0'' then True else r3)
      in r4)"
| "isInteractiveElement Missing = False"
| "isInteractiveElement Primitive = False"
| "isInteractiveElement (NonElement k) = False"

text \<open>
  Second recorder variant. \<open>closest\<close> returns the nearest of the element and its
  ancestors that matches the selector, here a predicate.
\<close>

fun closest :: "(element \<Rightarrow> bool) \<Rightarrow> element \<Rightarrow> element option" where
  "closest sel (Element r t a c x v ty oc si p) =
     (if sel (Element r t a c x v ty oc si p) then Some (Element r t a c x v ty oc si p)
      else case p of None \<Rightarrow> None | Some q \<Rightarrow> closest sel q)"

definition sel_button :: "element \<Rightarrow> bool" where
  "sel_button e = (toLowerCase (tagName e) = ''button'')"

definition sel_role_button :: "element \<Rightarrow> bool" where
  "sel_role_button e = (getAttribute e ''role'' = Some ''button'')"

definition sel_input_type :: "string \<Rightarrow> element \<Rightarrow> bool" where
  "sel_input_type ty e = (toLowerCase (tagName e) = ''input'' \<and> getAttribute e ''type'' = Some ty)"

definition interactiveTags2 :: "string list" where
  "interactiveTags2 = [''a'', ''input'', ''select'', ''textarea'']"

definition interactiveRoles2 :: "string list" where
  "interactiveRoles2 = [''link'', ''checkbox'', ''radio'', ''textbox'', ''combobox'',
     ''listbox'', ''menuitem'']"

text \<open>
  The second variant only tests \<open>!element\<close>; on any other target that is not an element
  \<open>element.tagName\<close> is \<open>undefined\<close> and \<open>.toLowerCase()\<close> raises.
\<close>

fun isInteractiveElement2 :: "target \<Rightarrow> js_error + bool" where
  "isInteractiveElement2 Missing = Inr False"
| "isInteractiveElement2 Primitive = Inl TypeError"
| "isInteractiveElement2 (NonElement k) = Inl TypeError"
| "isInteractiveElement2 (Elem element) =
     (let tag = toLowerCase (tagName element);
          role = getAttribute element ''role'';
          type = getAttribute element ''type'';
          isButton =
            (tag = ''button'' \<or> role = Some ''button'' \<or> type = Some ''submit'' \<or>
             type = Some ''button'' \<or>
             closest sel_button element \<noteq> None \<or>
             closest sel_role_button element \<noteq> None \<or>
             closest (sel_input_type ''submit'') element \<noteq> None \<or>
             closest (sel_input_type ''button'') element \<noteq> None)
      in Inr (isButton \<or> tag \<in> set interactiveTags2 \<or>
              (case role of None \<Rightarrow> False | Some r \<Rightarrow> r \<in> set interactiveRoles2) \<or>
              onclick element \<or> getAttribute element ''tabindex'' = Some ''0''))"

section \<open>Element locator: the Stable ID\<close>

definition is_lower_alnum :: "char \<Rightarrow> bool" where
  "is_lower_alnum c =
     (let n = (of_char c :: int) in (97 \<le> n \<and> n \<le> 122) \<or> (48 \<le> n \<and> n \<le> 57))"

text \<open>\<open>value.toLowerCase().replace(/[^a-z0-9]/g, '-')\<close>: the global flag replaces every
  match, and the pattern matches one character.\<close>

definition normalizeAttr :: "string \<Rightarrow> string" where
  "normalizeAttr v = map (\<lambda>c. if is_lower_alnum c then c else CHR ''-'') (toLowerCase v)"

text \<open>\<open>.toLowerCase().replace(/[^a-z0-9-]/g, '-')\<close>, the pattern of the fallback, which
  lets the dash through.\<close>

definition normalizeId :: "string \<Rightarrow> string" where
  "normalizeId v =
     map (\<lambda>c. if is_lower_alnum c \<or> c = CHR ''-'' then c else CHR ''-'') (toLowerCase v)"

definition bidAttributes :: "(string \<times> string) list" where
  "bidAttributes =
     [(''data-testid'', ''test-''), (''aria-label'', ''aria-''), (''id'', ''id-''),
      (''name'', ''name-''), (''placeholder'', ''place-''), (''alt'', ''alt-''),
      (''title'', ''title-''), (''role'', ''role-'')]"

text \<open>The \<open>for ... of attributes\<close> loop: return at the first attribute whose value is
  truthy, that is present and not the empty string.\<close>

fun bid_from_attributes :: "element \<Rightarrow> (string \<times> string) list \<Rightarrow> string option" where
  "bid_from_attributes element [] = None"
| "bid_from_attributes element ((attr, prefix) # rest) =
     (case getAttribute element attr of
        None \<Rightarrow> bid_from_attributes element rest
      | Some v \<Rightarrow> if v \<noteq> [] then Some (prefix @ normalizeAttr v)
                  else bid_from_attributes element rest)"

text \<open>White space as \<open>\s\<close> and \<open>trim\<close> see it, on code units below 256.\<close>

definition is_space :: "char \<Rightarrow> bool" where
  "is_space c = ((of_char c :: int) \<in> {9, 10, 11, 12, 13, 32, 160})"

text \<open>\<open>className.split(/\s+/).filter(c => c)\<close>: the maximal runs of characters that are
  not white space. The first argument is the run being read.\<close>

fun class_tokens :: "string \<Rightarrow> string \<Rightarrow> string list" where
  "class_tokens cur [] = (if cur = [] then [] else [cur])"
| "class_tokens cur (c # cs) =
     (if is_space c then (if cur = [] then class_tokens [] cs else cur # class_tokens [] cs)
      else class_tokens (cur @ [c]) cs)"

fun join :: "string \<Rightarrow> string list \<Rightarrow> string" where
  "join sep [] = []"
| "join sep [x] = x"
| "join sep (x # y # ys) = x @ sep @ join sep (y # ys)"

definition trim :: "string \<Rightarrow> string" where
  "trim s = rev (dropWhile is_space (rev (dropWhile is_space s)))"

text \<open>Decimal rendering of the sibling index, as the template literal does it.\<close>

function decimal :: "int \<Rightarrow> string" where
  "decimal n = (if n < 10 then [char_of (48 + n)] else decimal (n div 10) @ [char_of (48 + n mod 10)])"
  by pat_completeness auto
termination
  by (relation "measure nat") auto

declare decimal.simps [simp del]

definition show_int :: "int \<Rightarrow> string" where
  "show_int i = (if i < 0 then CHR ''-'' # decimal (- i) else decimal i)"

text \<open>
  \<open>hashString\<close>. JavaScript numbers are doubles, and only the operand of \<open><<\<close> is
  cut to 32 bits: \<open>hash << 5\<close> is a signed 32-bit value, the two additions are not
  wrapped. \<open>hash >>> 0\<close> reads the final value modulo \<open>2 ^ 32\<close>. The model computes
  in \<open>int\<close>, which agrees with the doubles as long as the values stay below
  \<open>2 ^ 53\<close> in size.
\<close>

definition toInt32 :: "int \<Rightarrow> int" where
  "toInt32 x = (x + 2 ^ 31) mod 2 ^ 32 - 2 ^ 31"

definition shl5 :: "int \<Rightarrow> int" where
  "shl5 x = toInt32 (toInt32 x * 32)"

fun hash_loop :: "int \<Rightarrow> string \<Rightarrow> int" where
  "hash_loop hash [] = hash"
| "hash_loop hash (c # cs) = hash_loop ((shl5 hash + hash) + of_char c) cs"

definition toUint32 :: "int \<Rightarrow> int" where
  "toUint32 x = x mod 2 ^ 32"

definition digit36 :: "int \<Rightarrow> char" where
  "digit36 d = (if d < 10 then char_of (48 + d) else char_of (87 + d))"

text \<open>\<open>Number.prototype.toString(36)\<close> of a non-negative integer.\<close>

function toString36 :: "int \<Rightarrow> string" where
  "toString36 n = (if n < 36 then [digit36 n] else toString36 (n div 36) @ [digit36 (n mod 36)])"
  by pat_completeness auto
termination
  by (relation "measure nat") auto

declare toString36.simps [simp del]

definition hashString :: "string \<Rightarrow> string" where
  "hashString str = take 6 (toString36 (toUint32 (hash_loop 5381 str)))"

text \<open>The four ingredients of the fallback, and the string that is hashed.\<close>

definition bid_tag :: "element \<Rightarrow> string" where
  "bid_tag element = (if tagName element \<noteq> [] then toLowerCase (tagName element) else ''unknown'')"

definition bid_classes :: "element \<Rightarrow> string" where
  "bid_classes element =
     (if className element \<noteq> [] then join ''-'' (class_tokens [] (className element)) else [])"

definition bid_text :: "element \<Rightarrow> string" where
  "bid_text element = (if textContent element \<noteq> [] then take 30 (trim (textContent element)) else [])"

definition semanticId :: "string \<Rightarrow> string \<Rightarrow> string \<Rightarrow> int \<Rightarrow> string" where
  "semanticId tag classes text index = tag @ ''-'' @ classes @ ''-'' @ text @ ''-'' @ show_int index"

definition bid_fallback :: "element \<Rightarrow> string" where
  "bid_fallback element =
     (let tag = bid_tag element;
          classes = bid_classes element;
          text = bid_text element;
          index = siblingIndex element;
          hash = hashString (semanticId tag classes text index)
      in normalizeId (tag @ (if classes \<noteq> [] then ''-'' @ classes else []) @ ''-'' @ hash))"

fun getStableBID :: "target \<Rightarrow> string" where
  "getStableBID (Elem element) =
     (case bid_from_attributes element bidAttributes of
        Some b \<Rightarrow> b
      | None \<Rightarrow> bid_fallback element)"
| "getStableBID Missing = []"
| "getStableBID Primitive = []"
| "getStableBID (NonElement k) = []"

text \<open>
  The wording of the specification for the normalisation, kept apart from the code's:
  lower-case, then replace each maximal run of characters outside \<open>a-z0-9\<close> by one dash.
  The flag tells whether the previous character belonged to such a run.
\<close>

fun collapse_runs_spec :: "bool \<Rightarrow> string \<Rightarrow> string" where
  "collapse_runs_spec in_run [] = []"
| "collapse_runs_spec in_run (c # cs) =
     (if is_lower_alnum c then c # collapse_runs_spec False cs
      else if in_run then collapse_runs_spec True cs
      else CHR ''-'' # collapse_runs_spec True cs)"

definition normalize_spec :: "string \<Rightarrow> string" where
  "normalize_spec v = collapse_runs_spec False (toLowerCase v)"

text \<open>The second variant's fallback reads \<open>element.tagName.toLowerCase()\<close> without the
  \<open>'unknown'\<close> default, and its \<open>getStableBID\<close> has no guard: it is only defined on
  elements.\<close>

definition bid_fallback2 :: "element \<Rightarrow> string" where
  "bid_fallback2 element =
     (let tag = toLowerCase (tagName element);
          classes = bid_classes element;
          text = bid_text element;
          index = siblingIndex element;
          hash = hashString (semanticId tag classes text index)
      in normalizeId (tag @ (if classes \<noteq> [] then ''-'' @ classes else []) @ ''-'' @ hash))"

definition getStableBID2 :: "element \<Rightarrow> string" where
  "getStableBID2 element =
     (case bid_from_attributes element bidAttributes of
        Some b \<Rightarrow> b
      | None \<Rightarrow> bid_fallback2 element)"

text \<open>The classifier as the specification words it.\<close>

definition isInteractive_spec :: "target \<Rightarrow> bool" where
  "isInteractive_spec t =
     (case t of
        Elem e \<Rightarrow>
          toLowerCase (tagName e) \<in> {''button'', ''input'', ''select'', ''textarea'', ''a''} \<or>
          getAttribute e ''role'' \<in> Some ` {''button'', ''link'', ''checkbox'', ''radio'',
             ''textbox'', ''combobox'', ''listbox'', ''menuitem''} \<or>
          onclick e \<or>
          getAttribute e ''tabindex'' = Some ''0''
      | _ \<Rightarrow> False)"

definition button_like_ancestor :: "element \<Rightarrow> bool" where
  "button_like_ancestor e =
     (closest sel_button e \<noteq> None \<or> closest sel_role_button e \<noteq> None \<or>
      closest (sel_input_type ''submit'') e \<noteq> None \<or>
      closest (sel_input_type ''button'') e \<noteq> None)"

definition no_priority_attribute :: "element \<Rightarrow> bool" where
  "no_priority_attribute e = (bid_from_attributes e bidAttributes = None)"

section \<open>Event records and the session state\<close>

text \<open>
  A timestamp in a record is either the number \<open>Date.now()\<close> returned or the string
  \<open>formatTimestamp\<close> made of it, \<open>new Date(t).toISOString()\<close>. \<open>IsoString t\<close>
  stands for that string; the calendar arithmetic of the platform is not unfolded.
\<close>

datatype timestamp = EpochMillis int | IsoString int

fun instant :: "timestamp \<Rightarrow> int" where
  "instant (EpochMillis t) = t"
| "instant (IsoString t) = t"

fun is_epoch_millis :: "timestamp \<Rightarrow> bool" where
  "is_epoch_millis (EpochMillis t) = True"
| "is_epoch_millis (IsoString t) = False"

text \<open>
  The target descriptor of a record. Of the fields \<open>recordEvent\<close> fills in, the model keeps
  the ones the classifier, the Stable ID and the filter decide; \<open>xpath\<close>, \<open>cssPath\<close>,
  \<open>a11y\<close>, \<open>attributes\<close>, \<open>boundingBox\<close> and the pointer fields are left out.
\<close>

record target_info =
  ti_tag :: string
  ti_id :: string
  ti_class :: string
  ti_text :: string
  ti_value :: jsval
  ti_isInteractive :: bool
  ti_bid :: string

datatype event_record =
    DomRecord (rec_type: string) (rec_timestamp: timestamp) string target_info
  | NavigationRecord (rec_type: string) (rec_timestamp: timestamp) string string string string bool
  | PageLoadRecord (rec_type: string) (rec_timestamp: timestamp) string string

fun rec_value :: "event_record \<Rightarrow> jsval" where
  "rec_value (DomRecord ty ts url ti) = ti_value ti"
| "rec_value (NavigationRecord ty ts f t title r u) = Undefined"
| "rec_value (PageLoadRecord ty ts url title) = Undefined"

record page =
  href :: string
  title :: string
  referrer :: string

text \<open>A platform event as the handlers see it. \<open>deltaY\<close> is \<open>None\<close> when the event has no
  such property.\<close>

record occurrence =
  ev_type :: string
  ev_target :: target
  deltaY :: "int option"

text \<open>
  The variables of the recorder's closure: the buffer, the recording flag, the task,
  \<open>clickState\<close>, \<open>lastEventData\<close>, \<open>navigationState\<close>, and the pending timer of each
  debounced handler (the time it fires at and the event it was last called with).
\<close>

record session =
  events :: "event_record list"
  isRecording :: bool
  currentTaskId :: "string option"
  lastClickTime :: int
  lastClickTarget :: "nat option"
  clickCount :: nat
  led_type :: "string option"
  led_target :: "nat option"
  led_value :: string
  led_timestamp :: int
  lastInputValue :: jsval
  lastUrl :: "string option"
  lastTitle :: "string option"
  pendingNavigation :: bool
  inputTimer :: "(int \<times> occurrence) option"
  scrollTimer :: "(int \<times> occurrence) option"

definition initial_session :: session where
  "initial_session =
     \<lparr>events = [], isRecording = False, currentTaskId = None,
      lastClickTime = 0, lastClickTarget = None, clickCount = 0,
      led_type = None, led_target = None, led_value = [], led_timestamp = 0,
      lastInputValue = Null,
      lastUrl = None, lastTitle = None, pendingNavigation = False,
      inputTimer = None, scrollTimer = None\<rparr>"

text \<open>The state the load-time storage check leaves when a recording is under way.\<close>

definition recording_session :: session where
  "recording_session = initial_session\<lparr>isRecording := True, currentTaskId := Some ''T1''\<rparr>"

section \<open>Event filter\<close>

definition currentValue_of :: "element \<Rightarrow> string" where
  "currentValue_of element = (case el_value element of Str v \<Rightarrow> v | _ \<Rightarrow> [])"

text \<open>
  \<open>shouldIgnoreEvent(event, type)\<close> for an event whose target is an element, with the
  reading of \<open>Date.now()\<close> as an argument. The result is the returned flag and the state
  the call leaves. \<open>filter_tail\<close> is the part after the click block: the input rule, the
  scroll rule, the hover rule, the 300 ms rule and the update of the memo.
\<close>

definition filter_tail :: "int \<Rightarrow> session \<Rightarrow> element \<Rightarrow> int option \<Rightarrow> string \<Rightarrow> bool \<times> session" where
  "filter_tail currentTime s element dY type =
     (let currentValue = currentValue_of element in
      if type = ''input'' \<and> Str currentValue = lastInputValue s then (True, s)
      else
        let s1 = (if type = ''input'' then s\<lparr>lastInputValue := Str currentValue\<rparr> else s) in
        if type = ''scroll'' \<and> (case dY of None \<Rightarrow> False | Some d \<Rightarrow> \<bar>d\<bar> < 50) then (True, s1)
        else if (type = ''mouseover'' \<or> type = ''mouseout'') \<and>
                \<not> isInteractiveElement (Elem element) \<and> \<not> hasAttribute element ''title''
        then (True, s1)
        else if led_type s1 = Some type \<and> led_target s1 = Some (ref element) \<and>
                currentTime - led_timestamp s1 < 300
        then (True, s1)
        else (False, s1\<lparr>led_type := Some type, led_target := Some (ref element),
                        led_value := currentValue, led_timestamp := currentTime\<rparr>))"

definition shouldIgnoreEvent :: "int \<Rightarrow> session \<Rightarrow> element \<Rightarrow> int option \<Rightarrow> string \<Rightarrow> bool \<times> session" where
  "shouldIgnoreEvent currentTime s element dY type =
     (if type = ''click'' \<or> type = ''mouseup'' then
        if currentTime - lastClickTime s < 25 \<and> lastClickTarget s = Some (ref element)
        then (True, s)
        else
          let s1 = s\<lparr>lastClickTime := currentTime, lastClickTarget := Some (ref element),
                      clickCount := clickCount s + 1\<rparr> in
          if isInteractiveElement (Elem element) then (False, s1)
          else filter_tail currentTime s1 element dY type
      else filter_tail currentTime s element dY type)"

section \<open>Event normalizer, first variant\<close>

definition element_id :: "element \<Rightarrow> string" where
  "element_id element = (case getAttribute element ''id'' of None \<Rightarrow> [] | Some v \<Rightarrow> v)"

definition describe_target :: "element \<Rightarrow> target_info" where
  "describe_target element =
     \<lparr>ti_tag = tagName element, ti_id = element_id element, ti_class = className element,
      ti_text = textContent element, ti_value = el_value element,
      ti_isInteractive = isInteractiveElement (Elem element),
      ti_bid = getStableBID (Elem element)\<rparr>"

text \<open>
  \<open>recordEvent(event)\<close> of the first variant; \<open>None\<close> is a missing event. The message it
  then hands to \<open>safeSendMessage\<close> leaves the closure's variables alone. The function does
  not call \<open>shouldIgnoreEvent\<close>: no function of either recorder file does.
\<close>

definition recordEvent :: "page \<Rightarrow> int \<Rightarrow> session \<Rightarrow> occurrence option \<Rightarrow> session" where
  "recordEvent pg now s event =
     (if \<not> isRecording s then s
      else case event of
        None \<Rightarrow> s
      | Some e \<Rightarrow>
          (case ev_target e of
             Elem element \<Rightarrow>
               s\<lparr>events := events s @
                    [DomRecord (ev_type e) (EpochMillis now) (href pg) (describe_target element)]\<rparr>
           | Missing \<Rightarrow> s
           | Primitive \<Rightarrow> s
           | NonElement k \<Rightarrow> s))"

text \<open>
  \<open>recordNavigationEvent\<close> of the first variant. It pushes the record and then calls
  \<open>saveEvents\<close>, which the first recorder file does not define: the call raises after the
  push, and the updates of \<open>navigationState\<close> and of the click counter are not reached.
\<close>

definition recordNavigationEvent :: "page \<Rightarrow> int \<Rightarrow> session \<Rightarrow> string \<Rightarrow> string \<Rightarrow> js_error option \<times> session" where
  "recordNavigationEvent pg now s fromUrl toUrl =
     (if \<not> isRecording s then (None, s)
      else (Some ReferenceError,
            s\<lparr>events := events s @
                 [NavigationRecord ''navigation'' (IsoString now) fromUrl toUrl (title pg)
                    (referrer pg) (0 < clickCount s)]\<rparr>))"

text \<open>The second variant defines \<open>saveEvents\<close>, which writes to the store only.\<close>

definition recordNavigationEvent2 :: "page \<Rightarrow> int \<Rightarrow> session \<Rightarrow> string \<Rightarrow> string \<Rightarrow> session" where
  "recordNavigationEvent2 pg now s fromUrl toUrl =
     (if \<not> isRecording s then s
      else s\<lparr>events := events s @
                 [NavigationRecord ''navigation'' (IsoString now) fromUrl toUrl (title pg)
                    (referrer pg) (0 < clickCount s)],
              lastUrl := Some toUrl, lastTitle := Some (title pg), pendingNavigation := False,
              clickCount := 0\<rparr>)"

text \<open>
  \<open>startRecording(taskId)\<close> of the second variant, with the clock reading, the
  \<open>document.readyState\<close> and the store's answer: the events the task already has, if
  the task is known. In the callback of the store the buffer is set first. When the
  document is \<open>complete\<close> or \<open>interactive\<close>, \<open>initializeRecording()\<close> is called
  next, and it calls \<open>observeDynamicChanges\<close>, which the second recorder file does not
  define: the call raises and the page-load record is not pushed. When the document is
  still loading, \<open>initializeRecording\<close> is only registered for \<open>DOMContentLoaded\<close> and
  the page-load record is pushed.
\<close>

datatype ready_state = Loading | Interactive | Complete

definition startRecording2 :: "page \<Rightarrow> int \<Rightarrow> ready_state \<Rightarrow> event_record list option \<Rightarrow> string \<Rightarrow> session \<Rightarrow> js_error option \<times> session" where
  "startRecording2 pg now ready stored taskId s =
     (let s1 = s\<lparr>isRecording := True, currentTaskId := Some taskId,
                 events := (case stored of None \<Rightarrow> [] | Some evs \<Rightarrow> evs)\<rparr>
      in if ready = Complete \<or> ready = Interactive then (Some ReferenceError, s1)
         else (None,
               s1\<lparr>events := events s1 @
                     [PageLoadRecord ''pageLoad'' (IsoString now) (href pg) (title pg)]\<rparr>))"

section \<open>Listeners and debounced handlers, first variant\<close>

datatype handler = HRecordEvent | HDebouncedRecordInput | HDebouncedRecordScroll

text \<open>The listeners the script attaches to the document when it loads.\<close>

definition load_listeners :: "(string \<times> handler) list" where
  "load_listeners =
     [(''click'', HRecordEvent), (''mousedown'', HRecordEvent), (''mouseup'', HRecordEvent),
      (''keydown'', HRecordEvent), (''input'', HRecordEvent), (''change'', HRecordEvent)]"

text \<open>The table of \<open>initializeRecording\<close>.\<close>

definition eventsToRemove :: "(string \<times> handler) list" where
  "eventsToRemove =
     [(''click'', HRecordEvent), (''mousedown'', HRecordEvent), (''mouseup'', HRecordEvent),
      (''mouseover'', HRecordEvent), (''mouseout'', HRecordEvent), (''keydown'', HRecordEvent),
      (''keyup'', HRecordEvent), (''keypress'', HRecordEvent),
      (''scroll'', HDebouncedRecordScroll), (''input'', HDebouncedRecordInput),
      (''focus'', HRecordEvent), (''blur'', HRecordEvent), (''change'', HDebouncedRecordInput),
      (''submit'', HRecordEvent), (''touchstart'', HRecordEvent), (''touchend'', HRecordEvent),
      (''touchmove'', HRecordEvent)]"

text \<open>\<open>addEventListener\<close> ignores a listener that is already attached with the same
  type, callback and capture flag; all the recorder's listeners use the capture phase.\<close>

definition addEventListener :: "string \<times> handler \<Rightarrow> (string \<times> handler) list \<Rightarrow> (string \<times> handler) list" where
  "addEventListener l ls = (if l \<in> set ls then ls else ls @ [l])"

definition removeEventListener :: "string \<times> handler \<Rightarrow> (string \<times> handler) list \<Rightarrow> (string \<times> handler) list" where
  "removeEventListener l ls = removeAll l ls"

definition initializeRecording :: "(string \<times> handler) list \<Rightarrow> (string \<times> handler) list" where
  "initializeRecording ls =
     foldl (\<lambda>acc l. addEventListener l acc)
       (foldl (\<lambda>acc l. removeEventListener l acc) ls eventsToRemove) eventsToRemove"

definition listeners :: "(string \<times> handler) list" where
  "listeners = initializeRecording load_listeners"

definition handlers_for :: "string \<Rightarrow> handler list" where
  "handlers_for type = map snd (filter (\<lambda>l. fst l = type) listeners)"

text \<open>\<open>e.target.value\<close>: reading a property of a missing target raises.\<close>

fun target_value :: "target \<Rightarrow> js_error + jsval" where
  "target_value Missing = Inl TypeError"
| "target_value Primitive = Inr Undefined"
| "target_value (NonElement k) = Inr Undefined"
| "target_value (Elem element) = Inr (el_value element)"

text \<open>The functions given to \<open>debounce\<close>. An error raised in a timer callback ends the
  callback and leaves the state as it is.\<close>

definition debouncedRecordInput_body :: "page \<Rightarrow> int \<Rightarrow> session \<Rightarrow> occurrence \<Rightarrow> session" where
  "debouncedRecordInput_body pg now s e =
     (case target_value (ev_target e) of
        Inl err \<Rightarrow> s
      | Inr v \<Rightarrow> if v \<noteq> lastInputValue s then recordEvent pg now s (Some e) else s)"

definition debouncedRecordScroll_body :: "page \<Rightarrow> int \<Rightarrow> session \<Rightarrow> occurrence \<Rightarrow> session" where
  "debouncedRecordScroll_body pg now s e = recordEvent pg now s (Some e)"

text \<open>
  \<open>debounce(func, wait)\<close>: a call clears the pending timer and sets a new one, which runs
  \<open>func\<close> with the arguments of that call \<open>wait\<close> milliseconds later. The clock reads
  the firing time when the timer runs.
\<close>

definition fire_input :: "page \<Rightarrow> session \<Rightarrow> session" where
  "fire_input pg s =
     (case inputTimer s of
        None \<Rightarrow> s
      | Some (t, e) \<Rightarrow> debouncedRecordInput_body pg t (s\<lparr>inputTimer := None\<rparr>) e)"

definition fire_scroll :: "page \<Rightarrow> session \<Rightarrow> session" where
  "fire_scroll pg s =
     (case scrollTimer s of
        None \<Rightarrow> s
      | Some (t, e) \<Rightarrow> debouncedRecordScroll_body pg t (s\<lparr>scrollTimer := None\<rparr>) e)"

text \<open>Run the timers that are due at \<open>now\<close>, the earlier one first.\<close>

definition fire_due :: "page \<Rightarrow> int \<Rightarrow> session \<Rightarrow> session" where
  "fire_due pg now s =
     (case (inputTimer s, scrollTimer s) of
        (None, None) \<Rightarrow> s
      | (Some (ti, ei), None) \<Rightarrow> if ti \<le> now then fire_input pg s else s
      | (None, Some (ts, es)) \<Rightarrow> if ts \<le> now then fire_scroll pg s else s
      | (Some (ti, ei), Some (ts, es)) \<Rightarrow>
          if ti \<le> now \<and> ts \<le> now
          then (if ti \<le> ts then fire_scroll pg (fire_input pg s) else fire_input pg (fire_scroll pg s))
          else if ti \<le> now then fire_input pg s
          else if ts \<le> now then fire_scroll pg s
          else s)"

fun invoke :: "page \<Rightarrow> int \<Rightarrow> occurrence \<Rightarrow> session \<Rightarrow> handler \<Rightarrow> session" where
  "invoke pg now e s HRecordEvent = recordEvent pg now s (Some e)"
| "invoke pg now e s HDebouncedRecordInput = s\<lparr>inputTimer := Some (now + 500, e)\<rparr>"
| "invoke pg now e s HDebouncedRecordScroll = s\<lparr>scrollTimer := Some (now + 100, e)\<rparr>"

text \<open>An event arriving at \<open>now\<close>: the timers due by then have run, then the listeners of
  its type run in the order they were attached.\<close>

definition dispatch :: "page \<Rightarrow> session \<Rightarrow> int \<times> occurrence \<Rightarrow> session" where
  "dispatch pg s oc = foldl (invoke pg (fst oc) (snd oc)) (fire_due pg (fst oc) s) (handlers_for (ev_type (snd oc)))"

text \<open>A run over timed events, after which the timers still pending fire.\<close>

definition flush :: "page \<Rightarrow> session \<Rightarrow> session" where
  "flush pg s =
     (case (inputTimer s, scrollTimer s) of
        (Some (ti, ei), Some (ts, es)) \<Rightarrow>
          if ti \<le> ts then fire_scroll pg (fire_input pg s) else fire_input pg (fire_scroll pg s)
      | _ \<Rightarrow> fire_scroll pg (fire_input pg s))"

definition run :: "page \<Rightarrow> session \<Rightarrow> (int \<times> occurrence) list \<Rightarrow> session" where
  "run pg s ocs = flush pg (foldl (dispatch pg) s ocs)"

text \<open>Direct calls of the two recording functions, each with the clock reading at the call.\<close>

datatype call = RecordEventCall "occurrence option" | NavigationCall string string

fun apply_call :: "page \<Rightarrow> session \<Rightarrow> int \<times> call \<Rightarrow> session" where
  "apply_call pg s (now, RecordEventCall event) = recordEvent pg now s event"
| "apply_call pg s (now, NavigationCall fromUrl toUrl) = snd (recordNavigationEvent pg now s fromUrl toUrl)"

definition apply_calls :: "page \<Rightarrow> session \<Rightarrow> (int \<times> call) list \<Rightarrow> session" where
  "apply_calls pg s cs = foldl (apply_call pg) s cs"

definition instants :: "session \<Rightarrow> int list" where
  "instants s = map (\<lambda>r. instant (rec_timestamp r)) (events s)"

section \<open>Event normalizer, second variant\<close>

text \<open>
  What \<open>chrome.runtime.sendMessage(message, callback)\<close> does: raise at the call (the
  extension context is gone), call back with \<open>chrome.runtime.lastError\<close> set, call back
  with a response, or never call back.
\<close>

datatype send_result = SendThrows | CallbackError | CallbackOk "string option" | NoCallback

text \<open>
  The surroundings of one call of the second variant's \<open>recordEvent\<close>: whether the
  locator functions left out of the record (\<open>getElementXPath\<close> dereferences
  \<open>element.parentNode\<close> unguarded) raise on this target, the fate of the screenshot
  request, and the fate of the \<open>recordedEvent\<close> message.
\<close>

record env2 =
  locators_raise :: bool
  screenshot_send :: send_result
  event_send :: send_result

text \<open>How an \<open>async\<close> function ends: its promise is fulfilled, rejected, or never settles.\<close>

datatype async_outcome = Fulfilled | Rejected js_error | Pending

definition click_types :: "string list" where
  "click_types = [''click'', ''mousedown'', ''mouseup'', ''dblclick'', ''contextmenu'', ''auxclick'']"

text \<open>The condition under which a screenshot is requested. It reads the \<open>role\<close>
  attribute and the \<open>type\<close> property of the target.\<close>

definition wants_screenshot :: "occurrence \<Rightarrow> element \<Rightarrow> bool" where
  "wants_screenshot e element =
     (ev_type e \<in> set click_types \<or>
      toLowerCase (tagName element) = ''button'' \<or>
      getAttribute element ''role'' = Some ''button'' \<or>
      el_type element = Str ''submit'' \<or>
      el_type element = Str ''button'' \<or>
      button_like_ancestor element)"

definition describe_target2 :: "element \<Rightarrow> target_info" where
  "describe_target2 element =
     \<lparr>ti_tag = tagName element, ti_id = element_id element, ti_class = className element,
      ti_text = textContent element, ti_value = el_value element,
      ti_isInteractive = (case isInteractiveElement2 (Elem element) of Inr b \<Rightarrow> b | Inl err \<Rightarrow> False),
      ti_bid = getStableBID2 element\<rparr>"

text \<open>
  \<open>async function recordEvent(event)\<close> of the second variant. Nothing is validated:
  \<open>event.type\<close> and \<open>event.target.tagName\<close> raise on a missing event or target, and
  \<open>isInteractiveElement\<close> raises on any other target that is not an element. The record
  is pushed in the callback of the last \<open>sendMessage\<close>, under
  \<open>if (!chrome.runtime.lastError)\<close>.
\<close>

definition recordEvent2 :: "page \<Rightarrow> int \<Rightarrow> env2 \<Rightarrow> session \<Rightarrow> occurrence option \<Rightarrow> async_outcome \<times> session" where
  "recordEvent2 pg now env s event =
     (if \<not> isRecording s then (Fulfilled, s)
      else case event of
        None \<Rightarrow> (Rejected TypeError, s)
      | Some e \<Rightarrow>
          (case ev_target e of
             Missing \<Rightarrow> (Rejected TypeError, s)
           | Primitive \<Rightarrow> (Rejected TypeError, s)
           | NonElement k \<Rightarrow> (Rejected TypeError, s)
           | Elem element \<Rightarrow>
               if locators_raise env then (Rejected TypeError, s)
               else
                 (case (if wants_screenshot e element then screenshot_send env else CallbackOk None) of
                    SendThrows \<Rightarrow> (Rejected ChannelError, s)
                  | NoCallback \<Rightarrow> (Pending, s)
                  | shot \<Rightarrow>
                      (case event_send env of
                         SendThrows \<Rightarrow> (Rejected ChannelError, s)
                       | NoCallback \<Rightarrow> (Fulfilled, s)
                       | CallbackError \<Rightarrow> (Fulfilled, s)
                       | CallbackOk response \<Rightarrow>
                           (Fulfilled,
                            s\<lparr>events := events s @
                                 [DomRecord (ev_type e) (EpochMillis now) (href pg)
                                    (describe_target2 element)]\<rparr>)))))"

section \<open>Persistence bridge\<close>

text \<open>The argument of \<open>safeSendMessage\<close>: a value that fails
  \<open>!message || typeof message !== 'object'\<close>, or an object, here its content.\<close>

datatype message = NotAnObject | Message string

text \<open>
  What \<open>localStorage\<close> holds under \<open>eventCaptureBackup\<close>: nothing, text that
  \<open>JSON.parse\<close> rejects, a value without \<open>push\<close> (the object \<open>attemptRecovery\<close>
  writes under the same key), or the log of entries, each a message and the time it was
  stored. \<open>localStorage\<close> itself may be undefined, may raise on every access, or works,
  except that \<open>setItem\<close> raises when the quota is used up.
\<close>

datatype backup_value = NoEntry | Unparsable | NotAnArray | Log "(string \<times> int) list"

datatype local_storage = NoLocalStorage | Blocked | Available backup_value bool

text \<open>The body of the \<open>try\<close> block of the local fallback, and the \<open>catch\<close> around it.\<close>

fun backup_write :: "local_storage \<Rightarrow> string \<times> int \<Rightarrow> js_error + local_storage" where
  "backup_write NoLocalStorage entry = Inr NoLocalStorage"
| "backup_write Blocked entry = Inl ChannelError"
| "backup_write (Available Unparsable quota_full) entry = Inl TypeError"
| "backup_write (Available NotAnArray quota_full) entry = Inl TypeError"
| "backup_write (Available NoEntry quota_full) entry =
     (if quota_full then Inl ChannelError else Inr (Available (Log [entry]) quota_full))"
| "backup_write (Available (Log entries) quota_full) entry =
     (if quota_full then Inl ChannelError else Inr (Available (Log (entries @ [entry])) quota_full))"

definition try_backup_write :: "local_storage \<Rightarrow> string \<times> int \<Rightarrow> local_storage" where
  "try_backup_write ls entry = (case backup_write ls entry of Inl err \<Rightarrow> ls | Inr ls' \<Rightarrow> ls')"

text \<open>
  The messaging channel: \<open>chrome.runtime.sendMessage\<close> is not there, or the call raises,
  or the callback runs so many milliseconds after the call (with or without
  \<open>lastError\<close>, and with a response), or the callback never runs.
\<close>

datatype send_behaviour = Throws | Answers nat bool "string option" | Silent

datatype channel = NoRuntime | Runtime send_behaviour

text \<open>What the caller gets: an exception, or a promise that is rejected, or a promise
  resolved so many milliseconds after the call with a value (\<open>None\<close> is \<open>undefined\<close>).\<close>

datatype promise = Thrown js_error | RejectedPromise js_error | Resolved nat "string option"

definition safeSendMessage :: "int \<Rightarrow> channel \<Rightarrow> local_storage \<Rightarrow> message \<Rightarrow> promise \<times> local_storage" where
  "safeSendMessage now ch ls message =
     (case message of
        NotAnObject \<Rightarrow> (Resolved 0 None, ls)
      | Message m \<Rightarrow>
          (case ch of
             NoRuntime \<Rightarrow> (Resolved 0 None, try_backup_write ls (m, now))
           | Runtime Throws \<Rightarrow> (Resolved 0 None, ls)
           | Runtime (Answers d lastError response) \<Rightarrow>
               if d < 2000 then (Resolved d (if lastError then None else response), ls)
               else (Resolved 2000 None, ls)
           | Runtime Silent \<Rightarrow> (Resolved 2000 None, ls)))"

section \<open>Elements and events used in the examples\<close>

definition example_page :: page where
  "example_page = \<lparr>href = ''https://a/'', title = ''A'', referrer = []\<rparr>"

definition the_button :: element where
  "the_button = Element 10 ''BUTTON'' [] ''btn'' ''Save'' Undefined (Str ''submit'') False 0 None"

definition span_in_button :: element where
  "span_in_button = Element 11 ''SPAN'' [] [] ''Save'' Undefined Undefined False 0 (Some the_button)"

definition plain_div :: element where
  "plain_div = Element 12 ''DIV'' [] ''box'' ''hello'' Undefined Undefined False 2 None"

definition scroll_box :: element where
  "scroll_box = Element 13 ''DIV'' [(''class'', ''list'')] ''list'' ''rows'' Undefined Undefined False 1 None"

definition name_input :: element where
  "name_input = Element 14 ''INPUT'' [(''name'', ''q'')] [] [] (Str ''a'') (Str ''text'') False 0 None"

definition custom_input :: element where
  "custom_input = Element 15 ''MY-INPUT'' [] [] [] Null Undefined False 0 None"

definition submit_button :: element where
  "submit_button = Element 20 ''BUTTON'' [(''class'', ''btn''), (''id'', ''submit'')] ''btn'' ''Submit'' Undefined (Str ''submit'') False 0 None"

definition save_button :: element where
  "save_button = Element 21 ''BUTTON'' [(''data-testid'', ''Save & Exit''), (''id'', ''save'')] [] ''Save'' Undefined (Str ''submit'') False 1 None"

definition td0 :: element where
  "td0 = Element 1 ''TD'' [] [] ''x'' Undefined Undefined False 0 None"

definition td1 :: element where
  "td1 = Element 2 ''TD'' [] [] ''x'' Undefined Undefined False 1 None"

definition li0 :: element where
  "li0 = Element 3 ''LI'' [] ''item'' ''Milk'' Undefined (Str []) False 0 None"

definition li1 :: element where
  "li1 = Element 4 ''LI'' [] ''item'' ''Milk'' Undefined (Str []) False 1 None"

definition click_on :: "element \<Rightarrow> occurrence" where
  "click_on element = \<lparr>ev_type = ''click'', ev_target = Elem element, deltaY = None\<rparr>"

definition input_on :: "element \<Rightarrow> occurrence" where
  "input_on element = \<lparr>ev_type = ''input'', ev_target = Elem element, deltaY = None\<rparr>"

definition small_scroll :: occurrence where
  "small_scroll = \<lparr>ev_type = ''scroll'', ev_target = Elem scroll_box, deltaY = Some 5\<rparr>"

definition scroll_burst :: "(int \<times> occurrence) list" where
  "scroll_burst = map (\<lambda>k. (1000 + 10 * int k, small_scroll)) [0..<10]"

definition orphan_click :: occurrence where
  "orphan_click = \<lparr>ev_type = ''click'', ev_target = Missing, deltaY = None\<rparr>"

definition document_scroll :: occurrence where
  "document_scroll = \<lparr>ev_type = ''scroll'', ev_target = NonElement 9, deltaY = None\<rparr>"

definition good_channel :: env2 where
  "good_channel = \<lparr>locators_raise = False, screenshot_send = CallbackOk (Some ''data:image/png''),
     event_send = CallbackOk None\<rparr>"

definition failing_channel :: env2 where
  "failing_channel = good_channel\<lparr>event_send := CallbackError\<rparr>"


text \<open>The kind of timestamp each record carries: the number in a record of a DOM event,
  the ISO string in a navigation record and in a page-load record.\<close>

definition timestamp_kind_ok :: "event_record \<Rightarrow> bool" where
  "timestamp_kind_ok r =
     (case r of
        DomRecord ty ts url ti \<Rightarrow> is_epoch_millis ts
      | NavigationRecord ty ts f t ti rf u \<Rightarrow> \<not> is_epoch_millis ts
      | PageLoadRecord ty ts url ti \<Rightarrow> \<not> is_epoch_millis ts)"

definition example_calls :: "(int \<times> call) list" where
  "example_calls =
     [(1000, RecordEventCall (Some (click_on the_button))),
      (2000, NavigationCall ''https://a/'' ''https://a/b''),
      (2000, RecordEventCall (Some (click_on plain_div)))]"


section \<open>Properties of the interactivity classifier\<close>

lemma isInteractiveElement_spec: "isInteractiveElement t = isInteractive_spec t"
  by (cases t) (auto simp: isInteractive_spec_def interactiveTags_def interactiveRoles_def
      Let_def toLowerCase_def split: option.splits)

lemma isInteractiveElement2_spec:
  "isInteractiveElement2 (Elem e) =
     Inr (isInteractive_spec (Elem e) \<or> getAttribute e ''type'' = Some ''submit'' \<or>
          getAttribute e ''type'' = Some ''button'' \<or> button_like_ancestor e)"
  by (auto simp: isInteractive_spec_def interactiveTags2_def interactiveRoles2_def Let_def
      button_like_ancestor_def split: option.splits)

text \<open>
  C6, as stated, fails on the second variant: a \<open>span\<close> inside a \<open>button\<close> has none of
  the four properties, and the second variant's classifier answers \<open>true\<close> for it,
  because \<open>closest('button')\<close> finds the button.
\<close>

theorem isInteractive_variant2_counterexample:
  "isInteractiveElement2 (Elem span_in_button) = Inr True \<and>
   \<not> isInteractive_spec (Elem span_in_button)"
  by code_simp

text \<open>
  C6, amended. The first variant's classifier is true exactly when the tag is one of
  button, input, select, textarea, a, or the role is one of the eight listed, or an
  \<open>onclick\<close> handler is set, or \<open>tabindex\<close> is the string \<open>0\<close>, and it is false on
  every target that is not an element. The second variant's classifier is true on an
  element exactly when one of these holds, or the \<open>type\<close> attribute is \<open>submit\<close> or
  \<open>button\<close>, or the element is or lies inside a button, a \<open>[role="button"]\<close>, or an
  input of type submit or button; it is false on a missing target.
\<close>

theorem isInteractive_both_variants:
  "isInteractiveElement t = isInteractive_spec t \<and>
   isInteractiveElement Missing = False \<and> isInteractiveElement Primitive = False \<and>
   isInteractiveElement (NonElement k) = False \<and>
   isInteractiveElement2 (Elem e) =
     Inr (isInteractive_spec (Elem e) \<or> getAttribute e ''type'' = Some ''submit'' \<or>
          getAttribute e ''type'' = Some ''button'' \<or> button_like_ancestor e) \<and>
   isInteractiveElement2 Missing = Inr False"
  using isInteractiveElement_spec [of t] isInteractiveElement2_spec [of e] by simp

theorem isInteractive_both_variants_witness:
  "isInteractiveElement (Elem the_button) \<and> isInteractive_spec (Elem the_button) \<and>
   isInteractiveElement2 (Elem span_in_button) = Inr True \<and>
   button_like_ancestor span_in_button"
proof -
  have a: "isInteractive_spec (Elem the_button)" by code_simp
  have b: "button_like_ancestor span_in_button" by code_simp
  from isInteractive_both_variants [of "Elem the_button" 0 span_in_button] a b
  show ?thesis by (simp del: isInteractiveElement.simps isInteractiveElement2.simps)
qed

section \<open>Properties of the Stable ID\<close>

lemma bid_from_attributes_first:
  "i < length tab \<Longrightarrow> getAttribute e (fst (tab ! i)) = Some v \<Longrightarrow> v \<noteq> [] \<Longrightarrow>
   (\<forall>j<i. getAttribute e (fst (tab ! j)) \<in> {None, Some []}) \<Longrightarrow>
   bid_from_attributes e tab = Some (snd (tab ! i) @ normalizeAttr v)"
proof (induction tab arbitrary: i)
  case Nil
  then show ?case by simp
next
  case (Cons p tab)
  obtain a pre where p: "p = (a, pre)" by (cases p)
  show ?case
  proof (cases i)
    case 0
    with Cons.prems p show ?thesis by simp
  next
    case (Suc k)
    from Cons.prems Suc have hd: "getAttribute e a \<in> {None, Some []}"
      using p by (metis fst_conv nth_Cons_0 zero_less_Suc)
    have "\<forall>j<k. getAttribute e (fst (tab ! j)) \<in> {None, Some []}"
    proof (intro allI impI)
      fix j assume "j < k"
      then have "Suc j < i" using Suc by simp
      with Cons.prems(4) have "getAttribute e (fst ((p # tab) ! Suc j)) \<in> {None, Some []}" by blast
      then show "getAttribute e (fst (tab ! j)) \<in> {None, Some []}" by simp
    qed
    with Cons.IH [of k] Cons.prems Suc
    have "bid_from_attributes e tab = Some (snd (tab ! k) @ normalizeAttr v)" by simp
    with hd p Suc show ?thesis by auto
  qed
qed

text \<open>
  C4, amended. The Stable ID tries data-testid, aria-label, id, name, placeholder, alt,
  title, role in this order and returns, at the first one whose value is not empty, the
  prefix of that attribute followed by the value lower-cased with each single character
  outside \<open>a-z0-9\<close> replaced by a dash; for a non-empty data-testid this is \<open>test-\<close>
  followed by that string. The function is pure, so repeated calls agree.
\<close>

theorem getStableBID_attribute_priority:
  assumes "i < length bidAttributes"
    and "getAttribute e (fst (bidAttributes ! i)) = Some v" and "v \<noteq> []"
    and "\<forall>j<i. getAttribute e (fst (bidAttributes ! j)) \<in> {None, Some []}"
  shows "getStableBID (Elem e) = snd (bidAttributes ! i) @ normalizeAttr v \<and>
         normalizeAttr v = map (\<lambda>c. if is_lower_alnum (lower_char c) then lower_char c else CHR ''-'') v \<and>
         map fst bidAttributes = [''data-testid'', ''aria-label'', ''id'', ''name'',
            ''placeholder'', ''alt'', ''title'', ''role''] \<and>
         (i = 0 \<longrightarrow> getStableBID (Elem e) = ''test-'' @ normalizeAttr v)"
proof -
  have "bid_from_attributes e bidAttributes = Some (snd (bidAttributes ! i) @ normalizeAttr v)"
    using assms by (rule bid_from_attributes_first)
  then have 1: "getStableBID (Elem e) = snd (bidAttributes ! i) @ normalizeAttr v" by simp
  have 2: "normalizeAttr v = map (\<lambda>c. if is_lower_alnum (lower_char c) then lower_char c else CHR ''-'') v"
    by (simp add: normalizeAttr_def toLowerCase_def comp_def)
  have 3: "map fst bidAttributes = [''data-testid'', ''aria-label'', ''id'', ''name'',
            ''placeholder'', ''alt'', ''title'', ''role'']"
    by (simp add: bidAttributes_def)
  have 4: "i = 0 \<longrightarrow> getStableBID (Elem e) = ''test-'' @ normalizeAttr v"
    using 1 by (simp add: bidAttributes_def)
  from 1 2 3 4 show ?thesis by blast
qed

theorem getStableBID_attribute_priority_witness:
  "getStableBID (Elem submit_button) = ''id-submit''"
proof -
  have a: "(2::nat) < length bidAttributes" by (simp add: bidAttributes_def)
  have b: "getAttribute submit_button (fst (bidAttributes ! 2)) = Some ''submit''"
    by (simp add: bidAttributes_def getAttribute_def submit_button_def)
  have c: "''submit'' \<noteq> []" by simp
  have d: "\<forall>j<2. getAttribute submit_button (fst (bidAttributes ! j)) \<in> {None, Some []}"
    by (simp add: bidAttributes_def getAttribute_def submit_button_def less_Suc_eq numeral_2_eq_2)
  have n: "normalizeAttr ''submit'' = ''submit''" by code_simp
  have h: "getStableBID (Elem submit_button) = snd (bidAttributes ! 2) @ normalizeAttr ''submit''"
    using getStableBID_attribute_priority [OF a b c d] by blast
  have e: "snd (bidAttributes ! 2) @ normalizeAttr ''submit'' = ''id-submit''"
    by (simp add: bidAttributes_def n)
  from h e show ?thesis by (rule trans)
qed

text \<open>
  C4, as stated, fails: the code does not collapse a run of characters outside
  \<open>a-z0-9\<close> into one dash. For \<open>data-testid="Save & Exit"\<close> the Stable ID has three
  dashes where the specification's normalisation has one.
\<close>

theorem getStableBID_runs_counterexample:
  "getAttribute save_button ''data-testid'' = Some ''Save & Exit'' \<and>
   getStableBID (Elem save_button) = ''test-save---exit'' \<and>
   ''test-'' @ normalize_spec ''Save & Exit'' = ''test-save-exit'' \<and>
   getStableBID (Elem save_button) \<noteq> ''test-'' @ normalize_spec ''Save & Exit''"
  by code_simp



lemma of_char_digit36: "0 \<le> d \<Longrightarrow> d < 36 \<Longrightarrow>
   (of_char (digit36 d) :: int) = (if d < 10 then 48 + d else 87 + d)"
  by (auto simp: digit36_def of_char_of)

lemma digit36_fixed:
  assumes "0 \<le> d" "d < 36"
  shows "is_lower_alnum (digit36 d) \<and> lower_char (digit36 d) = digit36 d"
  using assms by (auto simp: is_lower_alnum_def lower_char_def Let_def of_char_digit36)

lemma toString36_digits:
  "0 \<le> n \<Longrightarrow> \<forall>c \<in> set (toString36 n). is_lower_alnum c \<and> lower_char c = c"
proof (induction n rule: toString36.induct)
  case (1 n)
  show ?case
  proof (cases "n < 36")
    case True
    with 1(2) show ?thesis by (simp add: toString36.simps [of n] digit36_fixed)
  next
    case False
    then have "0 \<le> n div 36" by simp
    with 1(1) False have ih: "\<forall>c \<in> set (toString36 (n div 36)). is_lower_alnum c \<and> lower_char c = c"
      by simp
    have "0 \<le> n mod 36" "n mod 36 < 36" by simp_all
    then have "is_lower_alnum (digit36 (n mod 36)) \<and> lower_char (digit36 (n mod 36)) = digit36 (n mod 36)"
      by (rule digit36_fixed)
    with ih False show ?thesis by (simp add: toString36.simps [of n])
  qed
qed

lemma toString36_nonempty: "toString36 n \<noteq> []"
  by (subst toString36.simps) simp

lemma hashString_digits: "\<forall>c \<in> set (hashString s). is_lower_alnum c \<and> lower_char c = c"
proof -
  have "0 \<le> toUint32 (hash_loop 5381 s)" by (simp add: toUint32_def)
  then have "\<forall>c \<in> set (toString36 (toUint32 (hash_loop 5381 s))). is_lower_alnum c \<and> lower_char c = c"
    by (rule toString36_digits)
  then show ?thesis unfolding hashString_def by (meson in_set_takeD)
qed

lemma hashString_nonempty: "hashString s \<noteq> []"
  by (simp add: hashString_def toString36_nonempty)

lemma normalizeId_append: "normalizeId (p @ h) = normalizeId p @ normalizeId h"
  by (simp add: normalizeId_def toLowerCase_def)

lemma normalizeId_hash: "normalizeId (hashString s) = hashString s"
  using hashString_digits [of s] by (simp add: normalizeId_def toLowerCase_def map_idI)

text \<open>
  C5, amended. For two elements with none of the priority attributes and the same tag,
  class list and first 30 characters of trimmed text, the Stable ID is not empty; it is
  the same when the sibling index is the same; and with any two sibling indices the two
  Stable IDs are equal exactly when the six-character hashes of the two semantic strings
  are equal, which a change of the sibling index does not exclude.
\<close>

theorem stable_id_fallback:
  assumes "no_priority_attribute e1" and "no_priority_attribute e2"
    and "bid_tag e1 = bid_tag e2" and "bid_classes e1 = bid_classes e2"
    and "bid_text e1 = bid_text e2"
  shows "getStableBID (Elem e1) \<noteq> [] \<and>
         (siblingIndex e1 = siblingIndex e2 \<longrightarrow> getStableBID (Elem e1) = getStableBID (Elem e2)) \<and>
         (getStableBID (Elem e1) = getStableBID (Elem e2) \<longleftrightarrow>
            hashString (semanticId (bid_tag e1) (bid_classes e1) (bid_text e1) (siblingIndex e1)) =
            hashString (semanticId (bid_tag e2) (bid_classes e2) (bid_text e2) (siblingIndex e2)))"
proof -
  define p where "p = bid_tag e1 @ (if bid_classes e1 \<noteq> [] then ''-'' @ bid_classes e1 else []) @ ''-''"
  define h1 where "h1 = hashString (semanticId (bid_tag e1) (bid_classes e1) (bid_text e1) (siblingIndex e1))"
  define h2 where "h2 = hashString (semanticId (bid_tag e2) (bid_classes e2) (bid_text e2) (siblingIndex e2))"
  have f1: "bid_fallback e1 = normalizeId (p @ h1)"
    by (simp add: bid_fallback_def Let_def p_def h1_def)
  have f2: "bid_fallback e2 = normalizeId (p @ h2)"
    using assms(3-5) by (simp add: bid_fallback_def Let_def p_def h2_def)
  have nh1: "normalizeId h1 = h1" and nh2: "normalizeId h2 = h2"
    by (simp_all add: h1_def h2_def normalizeId_hash)
  have g1: "getStableBID (Elem e1) = normalizeId p @ h1"
    using assms(1) f1 nh1 by (simp add: no_priority_attribute_def normalizeId_append)
  have g2: "getStableBID (Elem e2) = normalizeId p @ h2"
    using assms(2) f2 nh2 by (simp add: no_priority_attribute_def normalizeId_append)
  have ne: "getStableBID (Elem e1) \<noteq> []"
    using g1 by (simp add: h1_def hashString_nonempty)
  have same: "siblingIndex e1 = siblingIndex e2 \<longrightarrow> getStableBID (Elem e1) = getStableBID (Elem e2)"
    using g1 g2 assms(3-5) by (simp add: h1_def h2_def)
  have iff: "getStableBID (Elem e1) = getStableBID (Elem e2) \<longleftrightarrow> h1 = h2"
    using g1 g2 by simp
  from ne same iff show ?thesis unfolding h1_def h2_def by blast
qed

theorem stable_id_fallback_witness:
  "getStableBID (Elem li0) \<noteq> [] \<and>
   no_priority_attribute li0 \<and> no_priority_attribute li1 \<and>
   bid_tag li0 = bid_tag li1 \<and> bid_classes li0 = bid_classes li1 \<and> bid_text li0 = bid_text li1 \<and>
   (getStableBID (Elem li0) = getStableBID (Elem li1) \<longleftrightarrow>
      hashString (semanticId (bid_tag li0) (bid_classes li0) (bid_text li0) (siblingIndex li0)) =
      hashString (semanticId (bid_tag li1) (bid_classes li1) (bid_text li1) (siblingIndex li1)))"
proof -
  have a: "no_priority_attribute li0" and b: "no_priority_attribute li1"
    and c: "bid_tag li0 = bid_tag li1" and d: "bid_classes li0 = bid_classes li1"
    and e: "bid_text li0 = bid_text li1"
    by code_simp+
  from stable_id_fallback [OF a b c d e] a b c d e
  show ?thesis by blast
qed

text \<open>
  C5, as stated, fails: two table cells with the text \<open>x\<close>, no classes and no priority
  attribute, at sibling positions 0 and 1, get the same Stable ID. The two 32-bit hashes
  differ in their last base-36 digit only, and \<open>substring(0, 6)\<close> cuts the seventh digit.
\<close>

theorem stable_id_sibling_index_counterexample:
  "no_priority_attribute td0 \<and> no_priority_attribute td1 \<and>
   bid_tag td0 = bid_tag td1 \<and> bid_classes td0 = bid_classes td1 \<and> bid_text td0 = bid_text td1 \<and>
   siblingIndex td0 = 0 \<and> siblingIndex td1 = 1 \<and>
   getStableBID (Elem td0) = ''td-1m6idp'' \<and> getStableBID (Elem td1) = ''td-1m6idp''"
  by code_simp


text \<open>
  The hash. The intermediate values stay far below \<open>2 ^ 53\<close> for any string a page can
  hold, so the doubles of the source are exact, and the value read by \<open>>>> 0\<close> is the
  32-bit multiply-by-33 hash.
\<close>

lemma toInt32_bounds: "- 2147483648 \<le> toInt32 x \<and> toInt32 x < 2147483648"
proof -
  have "0 \<le> (x + 2147483648) mod 4294967296" "(x + 2147483648) mod 4294967296 < 4294967296"
    by simp_all
  then show ?thesis unfolding toInt32_def by simp
qed

lemma of_char_bounds: "0 \<le> (of_char c :: int) \<and> (of_char c :: int) < 256"
proof -
  have "(of_char c :: int) = int (of_char c :: nat)" by (simp add: of_char_def)
  moreover have "(of_char c :: nat) < 256" by simp
  ultimately show ?thesis by simp
qed

lemma hash_loop_bound:
  "\<bar>hash_loop h s\<bar> \<le> \<bar>h\<bar> + int (length s) * 4294967296"
proof (induction s arbitrary: h)
  case Nil
  then show ?case by simp
next
  case (Cons c cs)
  have "\<bar>shl5 h + h + of_char c\<bar> \<le> \<bar>h\<bar> + 4294967296"
    using toInt32_bounds [of "toInt32 h * 32"] of_char_bounds [of c]
    unfolding shl5_def by linarith
  with Cons.IH [of "shl5 h + h + of_char c"] show ?case
    by (simp add: algebra_simps)
qed

lemma toInt32_mod: "toInt32 x mod 4294967296 = x mod 4294967296"
  by (simp add: toInt32_def mod_simps)

lemma shl5_mod: "shl5 h mod 4294967296 = (h * 32) mod 4294967296"
proof -
  have "shl5 h mod 4294967296 = (toInt32 h * 32) mod 4294967296"
    by (simp add: shl5_def toInt32_mod)
  also have "\<dots> = (toInt32 h mod 4294967296 * 32) mod 4294967296"
    by (simp add: mod_simps)
  also have "\<dots> = (h * 32) mod 4294967296"
    by (simp add: toInt32_mod mod_simps)
  finally show ?thesis .
qed

lemma hash_step_mod:
  "(shl5 h + h + c) mod 4294967296 = (h mod 4294967296 * 33 + c) mod 4294967296"
proof -
  have "(shl5 h + h + c) mod 4294967296 = (shl5 h mod 4294967296 + (h + c)) mod 4294967296"
    by (simp add: mod_simps add.assoc)
  also have "\<dots> = ((h * 32) mod 4294967296 + (h + c)) mod 4294967296"
    by (simp only: shl5_mod)
  also have "\<dots> = (h * 32 + (h + c)) mod 4294967296"
    by (simp add: mod_simps)
  also have "\<dots> = (h * 33 + c) mod 4294967296"
    by (simp add: algebra_simps)
  also have "\<dots> = (h mod 4294967296 * 33 + c) mod 4294967296"
    by (metis mod_add_left_eq mod_mult_left_eq)
  finally show ?thesis .
qed

lemma hash_loop_mod:
  "toUint32 (hash_loop h s) =
     foldl (\<lambda>a c. (a * 33 + of_char c) mod 4294967296) (h mod 4294967296) s"
proof (induction s arbitrary: h)
  case Nil
  then show ?case by (simp add: toUint32_def)
next
  case (Cons c cs)
  from Cons.IH [of "shl5 h + h + of_char c"] show ?case
    by (simp add: hash_step_mod)
qed

section \<open>Properties of the event filter\<close>

lemma filter_tail_clickState:
  "lastClickTime (snd (filter_tail t s el d ty)) = lastClickTime s \<and>
   lastClickTarget (snd (filter_tail t s el d ty)) = lastClickTarget s"
  by (simp add: filter_tail_def Let_def)

lemma shouldIgnoreEvent_duplicate_click:
  assumes "ty = ''click'' \<or> ty = ''mouseup''"
    and "t - lastClickTime s < 25" and "lastClickTarget s = Some (ref el)"
  shows "shouldIgnoreEvent t s el d ty = (True, s)"
  using assms by (auto simp: shouldIgnoreEvent_def)

lemma shouldIgnoreEvent_remembers_click:
  assumes "ty = ''click'' \<or> ty = ''mouseup''"
    and "\<not> (t - lastClickTime s < 25 \<and> lastClickTarget s = Some (ref el))"
  shows "lastClickTime (snd (shouldIgnoreEvent t s el d ty)) = t \<and>
         lastClickTarget (snd (shouldIgnoreEvent t s el d ty)) = Some (ref el)"
  using assms by (auto simp: shouldIgnoreEvent_def Let_def filter_tail_clickState)

lemma shouldIgnoreEvent_interactive_click:
  assumes "ty = ''click'' \<or> ty = ''mouseup''"
    and "\<not> (t - lastClickTime s < 25 \<and> lastClickTarget s = Some (ref el))"
    and "isInteractiveElement (Elem el)"
  shows "fst (shouldIgnoreEvent t s el d ty) = False"
  using assms by (auto simp: shouldIgnoreEvent_def Let_def)

lemma shouldIgnoreEvent_small_scroll:
  "d = Some x \<Longrightarrow> \<bar>x\<bar> < 50 \<Longrightarrow> fst (shouldIgnoreEvent t s el d ''scroll'') = True"
  by (simp add: shouldIgnoreEvent_def filter_tail_def Let_def)

lemma shouldIgnoreEvent_unchanged_input:
  "lastInputValue s = Str (currentValue_of el) \<Longrightarrow> shouldIgnoreEvent t s el d ''input'' = (True, s)"
  by (simp add: shouldIgnoreEvent_def filter_tail_def Let_def)

lemma debouncedRecordInput_unchanged:
  "target_value (ev_target e) = Inr (lastInputValue s) \<Longrightarrow> debouncedRecordInput_body pg t s e = s"
  by (simp add: debouncedRecordInput_body_def)

text \<open>
  C1, amended. Of two consecutive click-class occurrences (\<open>click\<close> or \<open>mouseup\<close>) on the
  same target less than 25 ms apart, the filter keeps at most one: when the first passed
  the 25 ms test, the second is dropped, whether or not the target is interactive. A
  click-class occurrence on an interactive target that passes the 25 ms test is kept
  whatever the later rules say.
\<close>

theorem click_filter_25ms:
  assumes "ty1 = ''click'' \<or> ty1 = ''mouseup''" and "ty2 = ''click'' \<or> ty2 = ''mouseup''"
    and "t2 - t1 < 25"
    and "shouldIgnoreEvent t1 s el d1 ty1 = (r1, s1)"
    and "shouldIgnoreEvent t2 s1 el d2 ty2 = (r2, s2)"
  shows "(r1 \<or> r2) \<and>
         (\<not> (t1 - lastClickTime s < 25 \<and> lastClickTarget s = Some (ref el)) \<longrightarrow> r2) \<and>
         (isInteractiveElement (Elem el) \<and>
          \<not> (t1 - lastClickTime s < 25 \<and> lastClickTarget s = Some (ref el)) \<longrightarrow> \<not> r1)"
proof -
  let ?dup = "t1 - lastClickTime s < 25 \<and> lastClickTarget s = Some (ref el)"
  have first_dup: "?dup \<Longrightarrow> r1"
    using shouldIgnoreEvent_duplicate_click [OF assms(1), of t1 s el d1] assms(4) by simp
  have second: "\<not> ?dup \<Longrightarrow> r2"
  proof -
    assume nd: "\<not> ?dup"
    from shouldIgnoreEvent_remembers_click [OF assms(1) nd, of d1] assms(4)
    have "lastClickTime s1 = t1" and "lastClickTarget s1 = Some (ref el)" by simp_all
    with assms(3) have "shouldIgnoreEvent t2 s1 el d2 ty2 = (True, s1)"
      by (intro shouldIgnoreEvent_duplicate_click [OF assms(2)]) simp_all
    with assms(5) show r2 by simp
  qed
  have inter: "isInteractiveElement (Elem el) \<and> \<not> ?dup \<Longrightarrow> \<not> r1"
    using shouldIgnoreEvent_interactive_click [OF assms(1), of t1 s el d1] assms(4) by auto
  from first_dup second inter show ?thesis by blast
qed

theorem click_filter_25ms_witness:
  "fst (shouldIgnoreEvent 1000 recording_session the_button None ''click'') = False \<and>
   fst (shouldIgnoreEvent 1010 (snd (shouldIgnoreEvent 1000 recording_session the_button None ''click''))
          the_button None ''mouseup'') = True"
proof -
  obtain r1 s1 where a: "shouldIgnoreEvent 1000 recording_session the_button None ''click'' = (r1, s1)"
    by (cases "shouldIgnoreEvent 1000 recording_session the_button None ''click''")
  obtain r2 s2 where b: "shouldIgnoreEvent 1010 s1 the_button None ''mouseup'' = (r2, s2)"
    by (cases "shouldIgnoreEvent 1010 s1 the_button None ''mouseup''")
  have i: "isInteractiveElement (Elem the_button)" by code_simp
  have n: "\<not> (1000 - lastClickTime recording_session < 25 \<and>
              lastClickTarget recording_session = Some (ref the_button))"
    by code_simp
  have "''click'' = ''click'' \<or> ''click'' = ''mouseup''" and "''mouseup'' = ''click'' \<or> ''mouseup'' = ''mouseup''"
    and "(1010::int) - 1000 < 25" by simp_all
  from click_filter_25ms [OF this a b] i n have "r2 \<and> \<not> r1" by blast
  with a b show ?thesis by simp
qed

text \<open>
  C1, as stated, fails. On an interactive button the filter keeps the first click and
  drops the second one 10 ms later: the 25 ms test comes before the test for interactive
  targets. And the recorder's click listener is \<open>recordEvent\<close>, which does not consult
  the filter: two clicks 10 ms apart on a plain \<open>div\<close> both reach the buffer.
\<close>

theorem double_click_counterexample:
  "isInteractiveElement (Elem the_button) \<and>
   fst (shouldIgnoreEvent 1000 recording_session the_button None ''click'') = False \<and>
   fst (shouldIgnoreEvent 1010 (snd (shouldIgnoreEvent 1000 recording_session the_button None ''click''))
          the_button None ''click'') = True \<and>
   \<not> isInteractiveElement (Elem plain_div) \<and>
   map rec_type (events (run example_page recording_session
       [(1000, click_on plain_div), (1010, click_on plain_div)])) = [''click'', ''click'']"
  by code_simp

section \<open>What the recorder keeps\<close>

lemma handlers_input: "handlers_for ''input'' = [HRecordEvent, HDebouncedRecordInput]"
  by code_simp
lemma handlers_scroll: "handlers_for ''scroll'' = [HDebouncedRecordScroll]"
  by code_simp
lemma handlers_click: "handlers_for ''click'' = [HRecordEvent]"
  by code_simp

lemma recordEvent_ignores_memo:
  "isRecording s \<Longrightarrow> ev_target e = Elem el \<Longrightarrow>
   events (recordEvent pg now s (Some e)) =
     events s @ [DomRecord (ev_type e) (EpochMillis now) (href pg) (describe_target el)] \<and>
   lastInputValue (recordEvent pg now s (Some e)) = lastInputValue s \<and>
   lastClickTime (recordEvent pg now s (Some e)) = lastClickTime s"
  by (simp add: recordEvent_def)

text \<open>
  C2 says that an \<open>input\<close> occurrence whose value equals the last recorded input value
  is dropped and appends nothing. The first variant does not do that. The document has
  two listeners for \<open>input\<close>, \<open>recordEvent\<close> itself and the debounced handler, and
  \<open>lastInputValue\<close> is written by \<open>shouldIgnoreEvent\<close> only, which nothing calls. Two
  \<open>input\<close> occurrences on a field whose value stays \<open>a\<close> leave four records with the
  value \<open>a\<close> and the memo still \<open>null\<close>; and an occurrence on a component whose value is
  \<open>null\<close>, equal to the memo, is appended by the direct listener.
\<close>

theorem unchanged_input_is_recorded:
  "handlers_for ''input'' = [HRecordEvent, HDebouncedRecordInput] \<and>
   map rec_value (events (run example_page recording_session
       [(1000, input_on name_input), (2000, input_on name_input)])) =
     [Str ''a'', Str ''a'', Str ''a'', Str ''a''] \<and>
   lastInputValue (run example_page recording_session
       [(1000, input_on name_input), (2000, input_on name_input)]) = Null \<and>
   el_value custom_input = lastInputValue recording_session \<and>
   map rec_value (events (run example_page recording_session [(1000, input_on custom_input)])) = [Null]"
  by code_simp

text \<open>
  C3 says that scroll occurrences with \<open>|deltaY| < 50\<close> are dropped by the filter and
  that a burst of ten with \<open>deltaY = 5\<close> leaves no scroll event. The filter function
  does answer \<open>true\<close> for each of the ten, but the scroll listener is the debounced
  \<open>recordEvent\<close>, which does not call the filter: the burst on a scrollable element
  leaves one scroll record in the buffer.
\<close>

theorem scroll_burst_is_recorded:
  "length scroll_burst = 10 \<and>
   list_all (\<lambda>oc. ev_type (snd oc) = ''scroll'' \<and> deltaY (snd oc) = Some 5) scroll_burst \<and>
   map rec_type (events (run example_page recording_session scroll_burst)) = [''scroll''] \<and>
   map (\<lambda>oc. fst (shouldIgnoreEvent (fst oc) recording_session scroll_box (deltaY (snd oc)) ''scroll''))
       scroll_burst = replicate 10 True"
  by code_simp

section \<open>Timestamps\<close>

lemma apply_call_appends:
  "apply_call pg s (t, c) = s \<or>
   (\<exists>r. apply_call pg s (t, c) = s\<lparr>events := events s @ [r]\<rparr> \<and>
        instant (rec_timestamp r) = t \<and> timestamp_kind_ok r)"
proof (cases c)
  case (RecordEventCall ev)
  then show ?thesis
    by (auto simp: recordEvent_def timestamp_kind_ok_def split: option.splits target.splits)
next
  case (NavigationCall f u)
  then show ?thesis
    by (auto simp: recordNavigationEvent_def timestamp_kind_ok_def)
qed

lemma apply_calls_appended:
  "\<exists>new. events (apply_calls pg s cs) = events s @ new \<and>
     list_all timestamp_kind_ok new \<and>
     set (map (\<lambda>r. instant (rec_timestamp r)) new) \<subseteq> set (map fst cs) \<and>
     (sorted (map fst cs) \<longrightarrow> sorted (map (\<lambda>r. instant (rec_timestamp r)) new))"
proof (induction cs arbitrary: s)
  case Nil
  then show ?case by (simp add: apply_calls_def)
next
  case (Cons tc cs)
  obtain t c where tc: "tc = (t, c)" by (cases tc)
  let ?s' = "apply_call pg s (t, c)"
  let ?inst = "\<lambda>r. instant (rec_timestamp r)"
  have unfold: "apply_calls pg s (tc # cs) = apply_calls pg ?s' cs"
    by (simp add: apply_calls_def tc)
  from Cons.IH [of ?s'] obtain new where
    ev: "events (apply_calls pg ?s' cs) = events ?s' @ new" and
    ok: "list_all timestamp_kind_ok new" and
    sub: "set (map ?inst new) \<subseteq> set (map fst cs)" and
    so: "sorted (map fst cs) \<longrightarrow> sorted (map ?inst new)"
    by blast
  from apply_call_appends [of pg s t c]
  show ?case
  proof
    assume same: "?s' = s"
    have "events (apply_calls pg s (tc # cs)) = events s @ new"
      using ev same unfold by simp
    moreover have "set (map ?inst new) \<subseteq> set (map fst (tc # cs))"
      using sub by auto
    moreover have "sorted (map fst (tc # cs)) \<longrightarrow> sorted (map ?inst new)"
      using so by simp
    ultimately show ?thesis using ok by blast
  next
    assume "\<exists>r. ?s' = s\<lparr>events := events s @ [r]\<rparr> \<and> instant (rec_timestamp r) = t \<and> timestamp_kind_ok r"
    then obtain r where r: "?s' = s\<lparr>events := events s @ [r]\<rparr>"
      and rt: "?inst r = t" and rk: "timestamp_kind_ok r" by blast
    have e: "events (apply_calls pg s (tc # cs)) = events s @ (r # new)"
      using ev r unfold by simp
    have k: "list_all timestamp_kind_ok (r # new)" using rk ok by simp
    have u: "set (map ?inst (r # new)) \<subseteq> set (map fst (tc # cs))"
      using sub rt tc by auto
    have o: "sorted (map fst (tc # cs)) \<longrightarrow> sorted (map ?inst (r # new))"
    proof
      assume st: "sorted (map fst (tc # cs))"
      then have "sorted (map fst cs)" and le: "\<forall>u \<in> set (map fst cs). t \<le> u"
        using tc by auto
      with so have "sorted (map ?inst new)" by blast
      moreover have "\<forall>x \<in> set (map ?inst new). t \<le> x" using le sub by blast
      ultimately show "sorted (map ?inst (r # new))" using rt by simp
    qed
    from e k u o show ?thesis by blast
  qed
qed

text \<open>
  C7, amended. Every record that \<open>recordEvent\<close> appends carries the epoch-millisecond
  number \<open>Date.now()\<close> returned, and every record that \<open>recordNavigationEvent\<close>
  appends carries the ISO-8601 string of that reading; the calls only extend the buffer.
  Along any sequence of such calls of the first variant whose clock readings do not
  decrease, the instants of the records the calls append are non-decreasing in append
  order. The page-load record, which \<open>startRecording\<close> of the second variant appends
  when the document is still loading, carries the ISO-8601 string as well.
\<close>

theorem timestamps_of_appended_records:
  "take (length (events s)) (events (apply_calls pg s cs)) = events s \<and>
   list_all timestamp_kind_ok (drop (length (events s)) (events (apply_calls pg s cs))) \<and>
   (sorted (map fst cs) \<longrightarrow>
      sorted (drop (length (events s)) (instants (apply_calls pg s cs)))) \<and>
   events (snd (startRecording2 pg now Loading stored taskId s0)) =
     (case stored of None \<Rightarrow> [] | Some evs \<Rightarrow> evs) @
     [PageLoadRecord ''pageLoad'' (IsoString now) (href pg) (title pg)]"
proof -
  from apply_calls_appended [of pg s cs] obtain new where
    ev: "events (apply_calls pg s cs) = events s @ new" and
    ok: "list_all timestamp_kind_ok new" and
    so: "sorted (map fst cs) \<longrightarrow> sorted (map (\<lambda>r. instant (rec_timestamp r)) new)"
    by blast
  have "drop (length (events s)) (instants (apply_calls pg s cs)) =
        map (\<lambda>r. instant (rec_timestamp r)) new"
    using ev by (simp add: instants_def)
  with ev ok so show ?thesis by (simp add: startRecording2_def Let_def)
qed

theorem timestamps_of_appended_records_witness:
  "sorted (map fst example_calls) \<and>
   instants (apply_calls example_page recording_session example_calls) = [1000, 2000, 2000] \<and>
   sorted (instants (apply_calls example_page recording_session example_calls)) \<and>
   list_all timestamp_kind_ok (events (apply_calls example_page recording_session example_calls))"
proof -
  have a: "sorted (map fst example_calls)" by code_simp
  have d: "length (events recording_session) = 0" by code_simp
  have e: "instants (apply_calls example_page recording_session example_calls) = [1000, 2000, 2000]"
    by code_simp
  from timestamps_of_appended_records
         [where s = recording_session and pg = example_page and cs = example_calls]
       a d e
  show ?thesis by simp
qed

text \<open>
  C7, as stated, fails: the navigation record carries the string \<open>formatTimestamp\<close>
  returns, not the epoch-millisecond number, and so does the page-load record when it is
  appended. And a timestamp is a reading of \<open>Date.now()\<close>, the wall clock: when a
  reading is smaller than the one before it, the later record carries the smaller
  timestamp.
\<close>

theorem navigation_timestamp_counterexample:
  "map rec_timestamp (events (snd (recordNavigationEvent example_page 5000 recording_session
       ''https://a/'' ''https://a/b''))) = [IsoString 5000] \<and>
   map rec_timestamp (events (snd (startRecording2 example_page 4000 Loading None ''T1''
       initial_session))) = [IsoString 4000] \<and>
   \<not> is_epoch_millis (IsoString 5000) \<and> \<not> is_epoch_millis (IsoString 4000) \<and>
   instants (apply_calls example_page recording_session
       [(2000, RecordEventCall (Some (click_on the_button))),
        (1500, RecordEventCall (Some (click_on the_button)))]) = [2000, 1500]"
  by code_simp

section \<open>Invalid targets\<close>

lemma recordEvent_invalid_target:
  "event = None \<or> (\<exists>e. event = Some e \<and> ev_target e \<notin> range Elem) \<Longrightarrow>
   recordEvent pg now s event = s"
  by (auto simp: recordEvent_def split: option.splits target.splits)

lemma recordEvent2_invalid_target:
  "isRecording s \<Longrightarrow> event = None \<or> (\<exists>e. event = Some e \<and> ev_target e \<notin> range Elem) \<Longrightarrow>
   recordEvent2 pg now env s event = (Rejected TypeError, s)"
  by (auto simp: recordEvent2_def split: option.splits target.splits)

text \<open>
  C8 says that an occurrence whose target is missing or not an element is discarded
  without a record and without an exception. The first variant does so. The second
  variant appends nothing either, but it raises: on a click without target, on a scroll
  whose target is the document and on a missing event its promise is rejected with a
  \<open>TypeError\<close>.
\<close>

theorem recordEvent2_invalid_target_raises:
  "recordEvent2 example_page 1000 good_channel recording_session (Some orphan_click) =
     (Rejected TypeError, recording_session) \<and>
   recordEvent2 example_page 1000 good_channel recording_session (Some document_scroll) =
     (Rejected TypeError, recording_session) \<and>
   recordEvent2 example_page 1000 good_channel recording_session None =
     (Rejected TypeError, recording_session) \<and>
   recordEvent example_page 1000 recording_session (Some orphan_click) = recording_session \<and>
   recordEvent example_page 1000 recording_session (Some document_scroll) = recording_session \<and>
   recordEvent example_page 1000 recording_session None = recording_session"
  by code_simp

section \<open>Delivery and the buffer, second variant\<close>

text \<open>
  C10. In the second variant a record enters the buffer only when the \<open>recordedEvent\<close>
  message is answered without \<open>chrome.runtime.lastError\<close>; when the send raises, is
  answered with an error or is never answered, the session is left as it was.
\<close>

theorem recordEvent2_appends_only_on_delivery:
  "(events (snd (recordEvent2 pg now env s event)) \<noteq> events s \<longrightarrow>
      (\<exists>response. event_send env = CallbackOk response)) \<and>
   (event_send env = SendThrows \<or> event_send env = CallbackError \<or> event_send env = NoCallback \<longrightarrow>
      snd (recordEvent2 pg now env s event) = s)"
  by (auto simp: recordEvent2_def split: option.splits target.splits send_result.splits)

theorem recordEvent2_appends_only_on_delivery_witness:
  "events (snd (recordEvent2 example_page 1000 good_channel recording_session
                  (Some (click_on the_button)))) \<noteq> events recording_session \<and>
   (\<exists>response. event_send good_channel = CallbackOk response) \<and>
   event_send failing_channel = CallbackError \<and>
   snd (recordEvent2 example_page 1000 failing_channel recording_session
          (Some (click_on the_button))) = recording_session"
proof -
  have a: "events (snd (recordEvent2 example_page 1000 good_channel recording_session
                  (Some (click_on the_button)))) \<noteq> events recording_session"
    by code_simp
  have b: "event_send failing_channel = CallbackError" by code_simp
  from recordEvent2_appends_only_on_delivery
         [of example_page 1000 good_channel recording_session "Some (click_on the_button)"]
       recordEvent2_appends_only_on_delivery
         [of example_page 1000 failing_channel recording_session "Some (click_on the_button)"]
       a b
  show ?thesis by blast
qed

section \<open>The persistence bridge never fails\<close>

lemma safeSendMessage_resolves:
  "\<exists>d r. fst (safeSendMessage now ch ls m) = Resolved d r \<and> d \<le> 2000"
  by (auto simp: safeSendMessage_def split: message.splits channel.splits send_behaviour.splits)

text \<open>
  C9. \<open>safeSendMessage\<close> never raises and never returns a rejected promise: whatever the
  message, the channel and the local storage, the promise resolves within 2000 ms. A
  message that is not an object resolves at once and touches nothing; without a channel
  the promise resolves at once after the attempt to append the message to the local
  backup log, which succeeds when the log is usable; a send that is not answered, or
  answered after 2000 ms or later, resolves at 2000 ms.
\<close>

theorem safeSendMessage_never_fails:
  "(\<exists>d r. fst (safeSendMessage now ch ls m) = Resolved d r \<and> d \<le> 2000) \<and>
   safeSendMessage now ch ls NotAnObject = (Resolved 0 None, ls) \<and>
   safeSendMessage now NoRuntime ls (Message x) = (Resolved 0 None, try_backup_write ls (x, now)) \<and>
   try_backup_write (Available (Log es) False) (x, now) = Available (Log (es @ [(x, now)])) False \<and>
   try_backup_write (Available NoEntry False) (x, now) = Available (Log [(x, now)]) False \<and>
   safeSendMessage now (Runtime Silent) ls (Message x) = (Resolved 2000 None, ls) \<and>
   safeSendMessage now (Runtime (Answers (2000 + k) e r)) ls (Message x) = (Resolved 2000 None, ls)"
  using safeSendMessage_resolves [of now ch ls m]
  by (simp add: safeSendMessage_def try_backup_write_def)


end
